theory Spec2Isabelle
  imports Complex_Main "HOL-Library.AList" "HOL-Library.Char_ord" "HOL-Library.List_Lexorder" "HOL-Library.Sublist"
begin

section \<open>Python values and the primitive operations the bot uses\<close>

text \<open>
  The bot keeps every entry, pair record and file content as the value that Python's
  \<^verbatim>\<open>json.loads\<close> returns: \<^verbatim>\<open>None\<close>, a bool, a number, a string, a list or a dict.
  A dict is an association list in insertion order (Python dicts keep it; keys are unique).
  Numbers are exact rationals: Python's \<^verbatim>\<open>int\<close> and finite \<^verbatim>\<open>float\<close> values are both
  \<open>JNum\<close>, float rounding error, infinities, NaN and the negative zero are not modelled.
\<close>

datatype json =
    JNull
  | JBool bool
  | JNum rat
  | JStr string
  | JArr "json list"
  | JObj "(string \<times> json) list"

datatype error =
    TypeError
  | ValueError
  | AttributeError
  | KeyError
  | IndexError
  | NetworkError

text \<open>Sequencing of operations that may raise: the first exception wins.\<close>

definition bindE :: "error + 'a \<Rightarrow> ('a \<Rightarrow> error + 'b) \<Rightarrow> error + 'b" where
  "bindE m f = (case m of Inl e \<Rightarrow> Inl e | Inr v \<Rightarrow> f v)"

text \<open>Python truthiness (\<^verbatim>\<open>if x\<close>, \<^verbatim>\<open>not x\<close>, \<^verbatim>\<open>x or y\<close>).\<close>

fun truthy :: "json \<Rightarrow> bool" where
  "truthy JNull = False"
| "truthy (JBool b) = b"
| "truthy (JNum r) = (r \<noteq> 0)"
| "truthy (JStr s) = (s \<noteq> [])"
| "truthy (JArr xs) = (xs \<noteq> [])"
| "truthy (JObj kvs) = (kvs \<noteq> [])"

definition py_or :: "json \<Rightarrow> json \<Rightarrow> json" where
  "py_or a b = (if truthy a then a else b)"

definition lookup :: "(string \<times> json) list \<Rightarrow> string \<Rightarrow> json" where
  "lookup kvs k = (case map_of kvs k of None \<Rightarrow> JNull | Some v \<Rightarrow> v)"

definition has_key :: "(string \<times> json) list \<Rightarrow> string \<Rightarrow> bool" where
  "has_key kvs k = (map_of kvs k \<noteq> None)"

text \<open>\<^verbatim>\<open>x.get(k)\<close> and \<^verbatim>\<open>x.get(k, d)\<close>: only a dict has the method.\<close>

fun py_get :: "json \<Rightarrow> string \<Rightarrow> error + json" where
  "py_get (JObj kvs) k = Inr (lookup kvs k)"
| "py_get _ k = Inl AttributeError"

fun py_get_default :: "json \<Rightarrow> string \<Rightarrow> json \<Rightarrow> error + json" where
  "py_get_default (JObj kvs) k d = Inr (case map_of kvs k of None \<Rightarrow> d | Some v \<Rightarrow> v)"
| "py_get_default _ k d = Inl AttributeError"

text \<open>\<^verbatim>\<open>d.get(key)\<close> on a dict \<open>d\<close> with an arbitrary key object: a list or dict key is
  unhashable; a key that is not a string equals no key of a dict read from JSON.\<close>

fun dict_get_obj :: "(string \<times> json) list \<Rightarrow> json \<Rightarrow> error + json" where
  "dict_get_obj kvs (JStr k) = Inr (lookup kvs k)"
| "dict_get_obj kvs (JArr xs) = Inl TypeError"
| "dict_get_obj kvs (JObj xs) = Inl TypeError"
| "dict_get_obj kvs _ = Inr JNull"

text \<open>\<^verbatim>\<open>x[-1]\<close> on a truthy value: the last element of a list, the last character of a
  string, a missing key of a dict, and no subscript at all on a number or bool.\<close>

fun py_last :: "json \<Rightarrow> error + json" where
  "py_last (JArr xs) = (if xs = [] then Inl IndexError else Inr (last xs))"
| "py_last (JStr s) = (if s = [] then Inl IndexError else Inr (JStr [last s]))"
| "py_last (JObj kvs) = Inl KeyError"
| "py_last _ = Inl TypeError"

text \<open>
  \<^verbatim>\<open>float(s)\<close> on a string: surrounding whitespace is stripped, then an optional sign,
  a decimal number (digits, with single underscores between digits, an optional point)
  and an optional exponent. The spellings of infinity and NaN, which Python also
  accepts, have no value among the rationals and are refused here.
\<close>

definition is_digit :: "char \<Rightarrow> bool" where
  "is_digit c = (CHR ''0'' \<le> c \<and> c \<le> CHR ''9'')"

definition is_space :: "char \<Rightarrow> bool" where
  "is_space c = (c = CHR '' '' \<or> (CHR 0x09 \<le> c \<and> c \<le> CHR 0x0D) \<or> (CHR 0x1C \<le> c \<and> c \<le> CHR 0x1F))"

definition digit_val :: "char \<Rightarrow> nat" where
  "digit_val c = of_char c - 48"

fun digitpart_ok :: "string \<Rightarrow> bool" where
  "digitpart_ok [] = False"
| "digitpart_ok [c] = is_digit c"
| "digitpart_ok (c # d # cs) =
     (is_digit c \<and> (if d = CHR ''_'' then digitpart_ok cs else digitpart_ok (d # cs)))"

definition digits_val :: "string \<Rightarrow> nat" where
  "digits_val s = foldl (\<lambda>a c. 10 * a + digit_val c) 0 (filter is_digit s)"

definition strip :: "string \<Rightarrow> string" where
  "strip s = rev (dropWhile is_space (rev (dropWhile is_space s)))"

definition mantissa :: "string \<Rightarrow> rat option" where
  "mantissa s =
     (let ip = takeWhile (\<lambda>c. c \<noteq> CHR ''.'') s; r = dropWhile (\<lambda>c. c \<noteq> CHR ''.'') s in
      if r = [] then (if digitpart_ok ip then Some (of_nat (digits_val ip)) else None)
      else
        (let fp = tl r; k = length (filter is_digit fp) in
         if (ip = [] \<or> digitpart_ok ip) \<and> (fp = [] \<or> digitpart_ok fp) \<and> \<not> (ip = [] \<and> fp = [])
         then Some (of_nat (digits_val ip) + of_nat (digits_val fp) / 10 ^ k)
         else None))"

definition exponent :: "string \<Rightarrow> int option" where
  "exponent s =
     (case s of
        [] \<Rightarrow> None
      | c # cs \<Rightarrow>
          if c = CHR ''-'' then (if digitpart_ok cs then Some (- int (digits_val cs)) else None)
          else if c = CHR ''+'' then (if digitpart_ok cs then Some (int (digits_val cs)) else None)
          else if digitpart_ok s then Some (int (digits_val s)) else None)"

definition is_e :: "char \<Rightarrow> bool" where
  "is_e c = (c = CHR ''e'' \<or> c = CHR ''E'')"

definition unsigned_float :: "string \<Rightarrow> rat option" where
  "unsigned_float s =
     (let m = takeWhile (\<lambda>c. \<not> is_e c) s; r = dropWhile (\<lambda>c. \<not> is_e c) s in
      case mantissa m of
        None \<Rightarrow> None
      | Some v \<Rightarrow>
          if r = [] then Some v
          else (case exponent (tl r) of
                  None \<Rightarrow> None
                | Some e \<Rightarrow> Some (if 0 \<le> e then v * 10 ^ nat e else v / 10 ^ nat (- e))))"

definition float_of_str :: "string \<Rightarrow> rat option" where
  "float_of_str s =
     (case strip s of
        [] \<Rightarrow> None
      | c # cs \<Rightarrow>
          if c = CHR ''-'' then map_option uminus (unsigned_float cs)
          else if c = CHR ''+'' then unsigned_float cs
          else unsigned_float (c # cs))"

text \<open>\<^verbatim>\<open>float(x)\<close>: a bool is the number 0 or 1, a string is parsed (\<^verbatim>\<open>ValueError\<close> when
  it is no number), anything else is a \<^verbatim>\<open>TypeError\<close>.\<close>

fun py_float :: "json \<Rightarrow> error + rat" where
  "py_float (JNum r) = Inr r"
| "py_float (JBool b) = Inr (if b then 1 else 0)"
| "py_float (JStr s) = (case float_of_str s of None \<Rightarrow> Inl ValueError | Some r \<Rightarrow> Inr r)"
| "py_float _ = Inl TypeError"

text \<open>\<^verbatim>\<open>try: return float(x)\<close> under \<^verbatim>\<open>except (TypeError, ValueError)\<close>: the handler's
  value replaces the two exceptions, any other exception passes.\<close>

definition float_or :: "json \<Rightarrow> 'a \<Rightarrow> (rat \<Rightarrow> 'a) \<Rightarrow> error + 'a" where
  "float_or x d f =
     (case py_float x of
        Inr v \<Rightarrow> Inr (f v)
      | Inl e \<Rightarrow> if e = TypeError \<or> e = ValueError then Inr d else Inl e)"

text \<open>\<^verbatim>\<open>for x in v\<close>: the elements of a list, the characters of a string, the keys of a
  dict; a number, a bool or \<^verbatim>\<open>None\<close> is not iterable.\<close>

fun py_iter :: "json \<Rightarrow> error + json list" where
  "py_iter (JArr xs) = Inr xs"
| "py_iter (JStr s) = Inr (map (\<lambda>c. JStr [c]) s)"
| "py_iter (JObj kvs) = Inr (map (\<lambda>kv. JStr (fst kv)) kvs)"
| "py_iter _ = Inl TypeError"

section \<open>The market-cap fetcher\<close>

text \<open>Lines 94 to 98 of \<^verbatim>\<open>_pick_best_pair\<close>: the liquidity of one pair.\<close>

definition pair_liquidity :: "json \<Rightarrow> error + rat" where
  "pair_liquidity pair =
     bindE (py_get_default pair ''liquidity'' (JObj [])) (\<lambda>l.
     bindE (py_get l ''usd'') (\<lambda>u.
     float_or (py_or u (JNum 0)) 0 (\<lambda>v. v)))"

text \<open>The loop of \<^verbatim>\<open>_pick_best_pair\<close>, with \<^verbatim>\<open>best\<close> and \<^verbatim>\<open>best_liquidity\<close> as
  accumulators.\<close>

fun pick_loop :: "json list \<Rightarrow> json \<Rightarrow> rat \<Rightarrow> error + json" where
  "pick_loop [] best best_liquidity = Inr best"
| "pick_loop (pair # pairs) best best_liquidity =
     bindE (pair_liquidity pair) (\<lambda>liquidity_val.
       if liquidity_val > best_liquidity then pick_loop pairs pair liquidity_val
       else pick_loop pairs best best_liquidity)"

definition pick_best_pair :: "json \<Rightarrow> error + json" where
  "pick_best_pair pairs = bindE (py_iter (py_or pairs (JArr []))) (\<lambda>ps. pick_loop ps JNull (- 1))"

definition parse_market_cap :: "json \<Rightarrow> error + rat option" where
  "parse_market_cap pair =
     bindE (py_get pair ''marketCap'') (\<lambda>market_cap.
     bindE (if market_cap = JNull then py_get pair ''fdv'' else Inr market_cap) (\<lambda>market_cap.
       if market_cap = JNull then Inr None
       else float_or market_cap None Some))"

text \<open>
  The API: what an HTTP GET of the token-by-address or of the search endpoint returns
  for a key, after \<^verbatim>\<open>json.loads\<close>; \<open>Inl\<close> when \<^verbatim>\<open>urlopen\<close>, the read or the parse
  raises (network error, timeout, a body that is not JSON).
\<close>

datatype endpoint = ByAddress | BySearch

type_synonym network = "endpoint \<Rightarrow> string \<Rightarrow> error + json"

definition http_get_json :: "network \<Rightarrow> endpoint \<Rightarrow> string \<Rightarrow> error + json" where
  "http_get_json net ep key = net ep key"

text \<open>The common body of \<^verbatim>\<open>_fetch_market_cap_for_address\<close> and of
  \<^verbatim>\<open>_fetch_market_cap_for_ticker\<close> once the response is there.\<close>

definition market_cap_of_response :: "json \<Rightarrow> error + (rat option \<times> json)" where
  "market_cap_of_response data =
     bindE (py_get data ''pairs'') (\<lambda>p.
     bindE (pick_best_pair (py_or p (JArr []))) (\<lambda>best.
       if \<not> truthy best then Inr (None, JNull)
       else bindE (parse_market_cap best) (\<lambda>mc.
            bindE (py_get best ''url'') (\<lambda>u. Inr (mc, u)))))"

definition fetch_market_cap_for_address :: "network \<Rightarrow> string \<Rightarrow> error + (rat option \<times> json)" where
  "fetch_market_cap_for_address net address =
     bindE (http_get_json net ByAddress address) market_cap_of_response"

definition fetch_market_cap_for_ticker :: "network \<Rightarrow> string \<Rightarrow> error + (rat option \<times> json)" where
  "fetch_market_cap_for_ticker net ticker =
     bindE (http_get_json net BySearch ticker) market_cap_of_response"

text \<open>\<^verbatim>\<open>fetch_market_cap\<close>: \<^verbatim>\<open>token_key.startswith\<close> exists on a string only.\<close>

definition fetch_market_cap :: "network \<Rightarrow> json \<Rightarrow> error + (rat option \<times> json)" where
  "fetch_market_cap net token_key =
     (case token_key of
        JStr k \<Rightarrow>
          if take 2 k = ''0x'' then fetch_market_cap_for_address net k
          else fetch_market_cap_for_ticker net k
      | _ \<Rightarrow> Inl AttributeError)"

section \<open>The durable files\<close>

text \<open>
  A file is missing, or cannot be read or parsed (\<^verbatim>\<open>read_text\<close> or \<^verbatim>\<open>json.loads\<close>
  raises), or holds the text of a JSON value.
\<close>

datatype file_state = Missing | Unreadable | Holds json

text \<open>\<^verbatim>\<open>_load_current\<close>: the body of the \<^verbatim>\<open>try\<close> block, once the file is parsed.\<close>

definition load_current_try :: "json \<Rightarrow> error + json option" where
  "load_current_try data =
     (case data of
        JObj kvs \<Rightarrow>
          (case lookup kvs ''items'' of
             JObj items \<Rightarrow>
               (let tokens = py_or (lookup kvs ''tokens'') (JArr []) in
                if truthy tokens then
                  bindE (py_last tokens) (\<lambda>last_token.
                  bindE (dict_get_obj items last_token) (\<lambda>v. Inr (Some v)))
                else Inr (Some (case items of [] \<Rightarrow> JNull | kv # _ \<Rightarrow> snd kv)))
           | _ \<Rightarrow> if has_key kvs ''token'' then Inr (Some data) else Inr None)
      | _ \<Rightarrow> Inr None)"

text \<open>The result \<open>Inl e\<close> would be an exception that reaches the caller.\<close>

definition load_current :: "file_state \<Rightarrow> error + json" where
  "load_current f =
     (case f of
        Missing \<Rightarrow> Inr JNull
      | Unreadable \<Rightarrow> Inr JNull
      | Holds data \<Rightarrow>
          (case load_current_try data of
             Inl e \<Rightarrow> Inr JNull
           | Inr None \<Rightarrow> Inr JNull
           | Inr (Some v) \<Rightarrow> Inr v))"

definition load_history_try :: "json \<Rightarrow> error + json list option" where
  "load_history_try data =
     (case data of
        JArr xs \<Rightarrow> Inr (Some xs)
      | JObj kvs \<Rightarrow>
          (case lookup kvs ''items'' of
             JObj items \<Rightarrow> Inr (Some (map snd items))
           | _ \<Rightarrow> if has_key kvs ''token'' then Inr (Some [data]) else Inr None)
      | _ \<Rightarrow> Inr None)"

definition load_history :: "file_state \<Rightarrow> error + json list" where
  "load_history f =
     (case f of
        Missing \<Rightarrow> Inr []
      | Unreadable \<Rightarrow> Inr []
      | Holds data \<Rightarrow>
          (case load_history_try data of
             Inl e \<Rightarrow> Inr []
           | Inr None \<Rightarrow> Inr []
           | Inr (Some xs) \<Rightarrow> Inr xs))"

definition is_dict :: "json \<Rightarrow> bool" where
  "is_dict v = (case v of JObj kvs \<Rightarrow> True | _ \<Rightarrow> False)"

section \<open>The claims' words about the fetcher\<close>






section \<open>Percentages\<close>

text \<open>
  \<^verbatim>\<open>round(x, 4)\<close> and the format \<^verbatim>\<open>f"{value:+.2f}%"\<close> both round half to even on the
  exact value. The sign of the formatted text is that of the value before rounding
  (\<^verbatim>\<open>-0.001\<close> prints as \<^verbatim>\<open>-0.00%\<close>).
\<close>

definition round_half_even :: "rat \<Rightarrow> int" where
  "round_half_even x =
     (let f = \<lfloor>x\<rfloor>; d = x - of_int f in
      if d < 1 / 2 then f else if 1 / 2 < d then f + 1 else if even f then f else f + 1)"

definition round4 :: "rat \<Rightarrow> rat" where
  "round4 x = of_int (round_half_even (x * 10000)) / 10000"

fun digits :: "nat \<Rightarrow> string" where
  "digits n = (if n < 10 then [char_of (48 + n)] else digits (n div 10) @ [char_of (48 + n mod 10)])"

declare digits.simps [simp del]

definition format_percent :: "rat \<Rightarrow> string" where
  "format_percent v =
     (let q = nat (round_half_even (\<bar>v\<bar> * 100)) in
      (if v < 0 then ''-'' else ''+'') @ digits (q div 100) @ ''.''
        @ [char_of (48 + (q mod 100) div 10), char_of (48 + q mod 10)] @ ''%'')"

text \<open>A number for arithmetic and comparison: a bool counts as 0 or 1, nothing else is
  a number (\<^verbatim>\<open>TypeError\<close>).\<close>

fun as_number :: "json \<Rightarrow> error + rat" where
  "as_number (JNum r) = Inr r"
| "as_number (JBool b) = Inr (if b then 1 else 0)"
| "as_number _ = Inl TypeError"

text \<open>\<^verbatim>\<open>((a - b) / b) * 100 if b else 0.0\<close>: the condition first, then the subtraction.\<close>

definition percent_change :: "json \<Rightarrow> json \<Rightarrow> error + rat" where
  "percent_change a b =
     (if truthy b then
        bindE (as_number a) (\<lambda>x. bindE (as_number b) (\<lambda>y. Inr (((x - y) / y) * 100)))
      else Inr 0)"

text \<open>\<^verbatim>\<open>max(a, b)\<close> with a float \<open>b\<close>: \<open>b\<close> when \<^verbatim>\<open>b > a\<close>, else \<open>a\<close> itself.\<close>

definition py_max :: "json \<Rightarrow> rat \<Rightarrow> error + json" where
  "py_max a b = bindE (as_number a) (\<lambda>x. Inr (if x < b then JNum b else a))"

section \<open>The shared state\<close>

text \<open>
  \<open>entry\<close> is \<^verbatim>\<open>current_holder["entry"]\<close> (\<open>JNull\<close> for \<^verbatim>\<open>None\<close>); the two files are the
  current-state file and the history file. \<open>trace\<close> records, oldest first, what a task
  does to the lock, the network and the files. Writes and \<^verbatim>\<open>send_message\<close> are taken to
  succeed.
\<close>

datatype event = Sleep | Acquire | Release | NetCall | SaveCurrent | AppendHistory | SendMessage

record state =
  entry :: json
  current_file :: file_state
  history_file :: file_state
  trace :: "event list"

definition log_event :: "event \<Rightarrow> state \<Rightarrow> state" where
  "log_event e s = s\<lparr>trace := trace s @ [e]\<rparr>"

text \<open>\<^verbatim>\<open>json.dumps(v, indent=2, sort_keys=True)\<close>: what is read back from the file has the
  keys of every dict in sorted order.\<close>

primrec sort_keys :: "json \<Rightarrow> json" where
  "sort_keys JNull = JNull"
| "sort_keys (JBool b) = JBool b"
| "sort_keys (JNum r) = JNum r"
| "sort_keys (JStr s) = JStr s"
| "sort_keys (JArr xs) = JArr (map sort_keys xs)"
| "sort_keys (JObj kvs) = JObj (sort_key fst (map (map_prod id sort_keys) kvs))"

definition save_current :: "json \<Rightarrow> state \<Rightarrow> state" where
  "save_current e s = log_event SaveCurrent (s\<lparr>current_file := Holds (sort_keys e)\<rparr>)"

definition append_history :: "json \<Rightarrow> state \<Rightarrow> state" where
  "append_history e s =
     (case load_history (history_file s) of
        Inr history \<Rightarrow>
          log_event AppendHistory (s\<lparr>history_file := Holds (sort_keys (JArr (history @ [e])))\<rparr>)
      | Inl err \<Rightarrow> s)"

text \<open>\<^verbatim>\<open>await fetch_market_cap(token_key)\<close>: the network is reached when the key is a
  string.\<close>

definition await_fetch :: "network \<Rightarrow> json \<Rightarrow> state \<Rightarrow> (error + (rat option \<times> json)) \<times> state" where
  "await_fetch net token_key s =
     (fetch_market_cap net token_key,
      case token_key of JStr k \<Rightarrow> log_event NetCall s | _ \<Rightarrow> s)"

section \<open>Entries\<close>

definition set_item :: "string \<Rightarrow> json \<Rightarrow> (string \<times> json) list \<Rightarrow> (string \<times> json) list" where
  "set_item k v kvs = AList.update k v kvs"

text \<open>The dict literal of the handler (and of the start-up code) for a new token.\<close>

definition new_entry :: "string \<Rightarrow> string \<Rightarrow> (string \<times> json) list" where
  "new_entry token_key time_posted =
     [(''token'', JStr token_key),
      (''time_posted'', JStr time_posted),
      (''initial_market_cap'', JNull),
      (''highest_market_cap'', JNull),
      (''current_market_cap'', JNull),
      (''current_percentage'', JStr (format_percent 0)),
      (''highest_percent_increase'', JNum 0),
      (''reached_50'', JBool False),
      (''last_checked'', JNull),
      (''pair_url'', JNull)]"

text \<open>\<^verbatim>\<open>_refresh_entry_market_cap\<close>, on an entry dict; \<open>now\<close> is \<^verbatim>\<open>_utc_now_iso()\<close>.\<close>

definition refresh_entry_market_cap ::
  "network \<Rightarrow> string \<Rightarrow> json \<Rightarrow> (string \<times> json) list \<Rightarrow> state
     \<Rightarrow> (error + (string \<times> json) list) \<times> state" where
  "refresh_entry_market_cap net now token_key e s =
     (case await_fetch net token_key s of
        (Inl err, s') \<Rightarrow> (Inl err, s')
      | (Inr (None, pair_url), s') \<Rightarrow> (Inr e, s')
      | (Inr (Some market_cap, pair_url), s') \<Rightarrow>
          (let e1 = set_item ''initial_market_cap'' (JNum market_cap) e;
               e2 = set_item ''highest_market_cap'' (JNum market_cap) e1;
               e3 = set_item ''current_market_cap'' (JNum market_cap) e2;
               e4 = set_item ''current_percentage'' (JStr (format_percent 0)) e3;
               e5 = set_item ''highest_percent_increase'' (JNum 0) e4;
               e6 = set_item ''reached_50'' (JBool False) e5;
               e7 = set_item ''last_checked'' (JStr now) e6;
               e8 = (if truthy pair_url then set_item ''pair_url'' pair_url e7 else e7)
           in (Inr e8, s')))"

section \<open>The monitor loop\<close>

datatype outcome = Applied | Skipped | Raised error

text \<open>
  Lines 181 to 211 of \<^verbatim>\<open>market_cap_monitor\<close>: the assignments to the entry dict for the
  fetched \<open>market_cap\<close> and \<open>pair_url\<close>. The dict is mutated in place, so an exception
  comes with the assignments made before it.
\<close>

definition update_entry ::
  "string \<Rightarrow> rat \<Rightarrow> json \<Rightarrow> (string \<times> json) list \<Rightarrow> error option \<times> (string \<times> json) list" where
  "update_entry now market_cap pair_url e =
     (let initial0 = lookup e ''initial_market_cap'';
          highest0 = (case map_of e ''highest_market_cap'' of
                        None \<Rightarrow> py_or initial0 (JNum market_cap)
                      | Some h \<Rightarrow> h);
          initial_market_cap = (if initial0 = JNull then JNum market_cap else initial0);
          e1 = (if initial0 = JNull then set_item ''initial_market_cap'' (JNum market_cap) e else e)
      in case as_number highest0 of
           Inl err \<Rightarrow> (Some err, e1)
         | Inr h \<Rightarrow>
            (let highest_market_cap = (if h < market_cap then JNum market_cap else highest0);
                 e2 = (if h < market_cap then set_item ''highest_market_cap'' (JNum market_cap) e1 else e1);
                 e3 = set_item ''current_market_cap'' (JNum market_cap) e2
             in case percent_change (JNum market_cap) initial_market_cap of
                  Inl err \<Rightarrow> (Some err, e3)
                | Inr current_percent \<Rightarrow>
                   (let e4 = set_item ''current_percentage''
                               (JStr (format_percent (round4 current_percent))) e3
                    in case percent_change highest_market_cap initial_market_cap of
                         Inl err \<Rightarrow> (Some err, e4)
                       | Inr hp \<Rightarrow>
                          (let highest_percent = round4 hp in
                           case py_max (case map_of e4 ''highest_percent_increase'' of
                                          None \<Rightarrow> JNum 0 | Some p \<Rightarrow> p) highest_percent of
                             Inl err \<Rightarrow> (Some err, e4)
                           | Inr mx \<Rightarrow>
                              (let e5 = set_item ''highest_percent_increase'' mx e4;
                                   e6 = set_item ''reached_50'' (JBool (50 \<le> highest_percent)) e5;
                                   e7 = set_item ''last_checked'' (JStr now) e6;
                                   e8 = (if truthy pair_url then set_item ''pair_url'' pair_url e7 else e7)
                               in (None, e8))))))"

text \<open>
  Lines 178 to 212, the body of the second locked block, for the token key \<open>token_key\<close>
  read before the fetch: the re-check of the active token, the update, and the save as
  the last step. \<open>Skipped\<close> is the \<^verbatim>\<open>continue\<close>.
\<close>

definition apply_observation :: "string \<Rightarrow> string \<Rightarrow> rat \<Rightarrow> json \<Rightarrow> state \<Rightarrow> outcome \<times> state" where
  "apply_observation now token_key market_cap pair_url s =
     (if \<not> truthy (entry s) then (Skipped, s)
      else case entry s of
        JObj e \<Rightarrow>
          if lookup e ''token'' \<noteq> JStr token_key then (Skipped, s)
          else (case update_entry now market_cap pair_url e of
                  (Some err, e') \<Rightarrow> (Raised err, s\<lparr>entry := JObj e'\<rparr>)
                | (None, e') \<Rightarrow> (Applied, save_current (JObj e') (s\<lparr>entry := JObj e'\<rparr>)))
      | _ \<Rightarrow> (Raised AttributeError, s))"

text \<open>Lines 166 to 176: the sleep, the first locked read, the checks and the fetch. The
  result is the observation to apply, if there is one.\<close>

definition monitor_fetch :: "network \<Rightarrow> state \<Rightarrow> (error + (string \<times> rat \<times> json) option) \<times> state" where
  "monitor_fetch net s =
     (let s1 = log_event Release (log_event Acquire (log_event Sleep s));
          e = entry s1
      in if \<not> truthy e then (Inr None, s1)
         else case py_get e ''token'' of
           Inl err \<Rightarrow> (Inl err, s1)
         | Inr token_key \<Rightarrow>
             if \<not> truthy token_key then (Inr None, s1)
             else case await_fetch net token_key s1 of
               (Inl err, s2) \<Rightarrow> (Inl err, s2)
             | (Inr (None, pair_url), s2) \<Rightarrow> (Inr None, s2)
             | (Inr (Some market_cap, pair_url), s2) \<Rightarrow>
                 (case token_key of
                    JStr k \<Rightarrow> (Inr (Some (k, market_cap, pair_url)), s2)
                  | _ \<Rightarrow> (Inl AttributeError, s2)))"

text \<open>Lines 177 to 212: the second locked block. The lock is released on every way
  out, an exception included.\<close>

definition monitor_update :: "string \<Rightarrow> string \<times> rat \<times> json \<Rightarrow> state \<Rightarrow> outcome \<times> state" where
  "monitor_update now ob s =
     (case apply_observation now (fst ob) (fst (snd ob)) (snd (snd ob)) (log_event Acquire s) of
        (r, s') \<Rightarrow> (r, log_event Release s'))"

text \<open>One pass of the \<^verbatim>\<open>while True\<close> body, with no other task running in between.\<close>

definition monitor_cycle :: "network \<Rightarrow> string \<Rightarrow> state \<Rightarrow> outcome \<times> state" where
  "monitor_cycle net now s =
     (case monitor_fetch net s of
        (Inl err, s1) \<Rightarrow> (Raised err, s1)
      | (Inr None, s1) \<Rightarrow> (Skipped, s1)
      | (Inr (Some ob), s1) \<Rightarrow> monitor_update now ob s1)"

text \<open>
  \<^verbatim>\<open>market_cap_monitor\<close>: the loop has no \<^verbatim>\<open>try\<close>, so an exception in a cycle ends the
  task. One list element per cycle gives the network and the clock of that cycle; the
  end of the list is the cancellation of the task. The result is the exception that
  ended the task, if one did.
\<close>

fun market_cap_monitor :: "(network \<times> string) list \<Rightarrow> state \<Rightarrow> error option \<times> state" where
  "market_cap_monitor [] s = (None, s)"
| "market_cap_monitor (c # cs) s =
     (case monitor_cycle (fst c) (snd c) s of
        (Raised err, s') \<Rightarrow> (Some err, s')
      | (r, s') \<Rightarrow> market_cap_monitor cs s')"

section \<open>The token classifier\<close>

text \<open>
  The three patterns of the handler, each as the left-to-right scan that \<^verbatim>\<open>findall\<close>
  performs: at a position where the pattern matches, the match is taken and the scan
  resumes behind it, elsewhere it moves one character on. The message is a string of
  characters with code points below 256; \<^verbatim>\<open>\b\<close> counts letters, digits and the
  underscore as word characters, the letters and digits of that range included.
\<close>

definition in_range :: "char \<Rightarrow> char \<Rightarrow> char \<Rightarrow> bool" where
  "in_range lo hi c = (lo \<le> c \<and> c \<le> hi)"

definition is_hex :: "char \<Rightarrow> bool" where
  "is_hex c = (in_range CHR ''a'' CHR ''f'' c \<or> in_range CHR ''A'' CHR ''F'' c \<or> in_range CHR ''0'' CHR ''9'' c)"

definition is_alnum :: "char \<Rightarrow> bool" where
  "is_alnum c = (in_range CHR ''A'' CHR ''Z'' c \<or> in_range CHR ''a'' CHR ''z'' c \<or> in_range CHR ''0'' CHR ''9'' c)"

definition is_base58 :: "char \<Rightarrow> bool" where
  "is_base58 c =
     (in_range CHR ''1'' CHR ''9'' c \<or> in_range CHR ''A'' CHR ''H'' c \<or> in_range CHR ''J'' CHR ''N'' c
      \<or> in_range CHR ''P'' CHR ''Z'' c \<or> in_range CHR ''a'' CHR ''k'' c \<or> in_range CHR ''m'' CHR ''z'' c)"

definition is_word :: "char \<Rightarrow> bool" where
  "is_word c =
     (is_alnum c \<or> c = CHR ''_'' \<or> c = CHR 0xAA \<or> c = CHR 0xB2 \<or> c = CHR 0xB3 \<or> c = CHR 0xB5
      \<or> c = CHR 0xB9 \<or> c = CHR 0xBA \<or> in_range CHR 0xBC CHR 0xBE c \<or> in_range CHR 0xC0 CHR 0xD6 c
      \<or> in_range CHR 0xD8 CHR 0xF6 c \<or> in_range CHR 0xF8 CHR 0xFF c)"

text \<open>\<^verbatim>\<open>0x[a-fA-F0-9]{40}\<close>\<close>

definition address_at :: "string \<Rightarrow> bool" where
  "address_at s = (take 2 s = ''0x'' \<and> length (take 40 (drop 2 s)) = 40 \<and> list_all is_hex (take 40 (drop 2 s)))"

fun address_findall :: "string \<Rightarrow> string list" where
  "address_findall [] = []"
| "address_findall (c # cs) =
     (if address_at (c # cs) then (c # take 41 cs) # address_findall (drop 41 cs)
      else address_findall cs)"

text \<open>\<^verbatim>\<open>\$[A-Za-z0-9]{2,10}\<close>: greedy, so the longest run of up to ten characters.\<close>

fun ticker_findall :: "string \<Rightarrow> string list" where
  "ticker_findall [] = []"
| "ticker_findall (c # cs) =
     (let t = takeWhile is_alnum (take 10 cs) in
      if c = CHR ''$'' \<and> 2 \<le> length t then (c # t) # ticker_findall (drop (length t) cs)
      else ticker_findall cs)"

text \<open>
  \<^verbatim>\<open>\b[1-9A-HJ-NP-Za-km-z]{32,50}\b\<close> at the head of \<open>s\<close>, \<open>prev\<close> being the character
  before it: a word boundary, then the longest run of up to fifty characters, given back
  one by one down to thirty-two until a word boundary follows. The result is the length
  of the match.
\<close>

definition word_opt :: "char option \<Rightarrow> bool" where
  "word_opt c = (case c of None \<Rightarrow> False | Some x \<Rightarrow> is_word x)"

definition boundary :: "char option \<Rightarrow> char option \<Rightarrow> bool" where
  "boundary a b = (word_opt a \<noteq> word_opt b)"

definition char_at :: "string \<Rightarrow> nat \<Rightarrow> char option" where
  "char_at s n = (if n < length s then Some (s ! n) else None)"

definition base58_at :: "char option \<Rightarrow> string \<Rightarrow> nat option" where
  "base58_at prev s =
     (if boundary prev (char_at s 0) then
        (let k = length (takeWhile is_base58 (take 50 s)) in
         find (\<lambda>n. boundary (char_at s (n - 1)) (char_at s n)) (rev [32..<Suc k]))
      else None)"

fun base58_findall :: "char option \<Rightarrow> string \<Rightarrow> string list" where
  "base58_findall prev [] = []"
| "base58_findall prev (c # cs) =
     (case base58_at prev (c # cs) of
        Some n \<Rightarrow> (c # take (n - 1) cs) # base58_findall (char_at (c # cs) (n - 1)) (drop (n - 1) cs)
      | None \<Rightarrow> base58_findall (Some c) cs)"

text \<open>Lines 295 to 298 of the handler: the candidates of a message.\<close>

definition classify :: "string \<Rightarrow> string list" where
  "classify message =
     (let addresses = address_findall message;
          tickers = map tl (ticker_findall message);
          base58_mints = base58_findall None message
      in addresses @ tickers @ base58_mints)"

section \<open>The ingestion handler\<close>

record config =
  discovery_mode :: bool
  group_ids :: "int list"
  user_ids :: "int list"
  forward_to_saved :: bool

record message_event =
  raw_text :: string
  chat_id :: int
  sender_id :: int
  date :: string

text \<open>
  Lines 310 to 330: the loop over the candidates, inside the lock. An exception leaves
  the loop at once; \<open>date\<close> is the message's time stamp in UTC.
\<close>

fun handle_tokens :: "network \<Rightarrow> string \<Rightarrow> string \<Rightarrow> string list \<Rightarrow> state \<Rightarrow> error option \<times> state" where
  "handle_tokens net now posted [] s = (None, s)"
| "handle_tokens net now posted (token_key # tokens) s =
     (let current_entry = entry s in
      case (if truthy current_entry
            then bindE (py_get current_entry ''token'') (\<lambda>t. Inr (t = JStr token_key))
            else Inr False) of
        Inl err \<Rightarrow> (Some err, s)
      | Inr True \<Rightarrow> handle_tokens net now posted tokens s
      | Inr False \<Rightarrow>
          (let s1 = (if truthy current_entry then append_history current_entry s else s) in
           case refresh_entry_market_cap net now (JStr token_key) (new_entry token_key posted) s1 of
             (Inl err, s2) \<Rightarrow> (Some err, s2)
           | (Inr e, s2) \<Rightarrow>
               handle_tokens net now posted tokens (save_current (JObj e) (s2\<lparr>entry := JObj e\<rparr>))))"

text \<open>
  The handler. Every exception is caught and logged: the result is the logged
  exception, if any, and the state the handler leaves.
\<close>

definition handler :: "config \<Rightarrow> network \<Rightarrow> string \<Rightarrow> message_event \<Rightarrow> state \<Rightarrow> error option \<times> state" where
  "handler cfg net now ev s =
     (if discovery_mode cfg then (None, log_event SendMessage s)
      else if chat_id ev \<notin> set (group_ids cfg) then (None, s)
      else if user_ids cfg \<noteq> [] \<and> sender_id ev \<notin> set (user_ids cfg) then (None, s)
      else
        (let tokens = classify (raw_text ev) in
         if tokens = [] then (None, s)
         else case handle_tokens net now (date ev) tokens (log_event Acquire s) of
           (Some err, s') \<Rightarrow> (Some err, log_event Release s')
         | (None, s') \<Rightarrow>
             (None, if forward_to_saved cfg then log_event SendMessage (log_event Release s')
                    else log_event Release s')))"

section \<open>The lock along a trace\<close>

text \<open>Whether the task holds the lock after a trace, and the list of answers to "is the
  lock held?" at each network call of the trace.\<close>

fun held_after :: "bool \<Rightarrow> event list \<Rightarrow> bool" where
  "held_after h [] = h"
| "held_after h (Acquire # es) = held_after True es"
| "held_after h (Release # es) = held_after False es"
| "held_after h (e # es) = held_after h es"

fun held_at_calls :: "bool \<Rightarrow> event list \<Rightarrow> bool list" where
  "held_at_calls h [] = []"
| "held_at_calls h (Acquire # es) = held_at_calls True es"
| "held_at_calls h (Release # es) = held_at_calls False es"
| "held_at_calls h (NetCall # es) = h # held_at_calls h es"
| "held_at_calls h (e # es) = held_at_calls h es"

section \<open>Fixtures\<close>

text \<open>A network that is down, one that answers every request with the same document, and
  one that is down for a single key.\<close>

definition net_down :: network where
  "net_down ep k = Inl NetworkError"

definition net_const :: "json \<Rightarrow> network" where
  "net_const data ep k = Inr data"

definition net_down_for :: "string \<Rightarrow> json \<Rightarrow> network" where
  "net_down_for bad data ep k = (if k = bad then Inl NetworkError else Inr data)"

definition one_pair :: "rat \<Rightarrow> json" where
  "one_pair mc = JObj [(''pairs'', JArr [JObj [(''liquidity'', JObj [(''usd'', JNum 10)]),
                                             (''marketCap'', JNum mc)]])]"

definition no_pairs :: json where
  "no_pairs = JObj [(''pairs'', JArr [])]"

definition idle :: "json \<Rightarrow> state" where
  "idle e = \<lparr>entry = e, current_file = Holds (sort_keys e), history_file = Missing, trace = []\<rparr>"

definition cfg0 :: config where
  "cfg0 = \<lparr>discovery_mode = False, group_ids = [1], user_ids = [], forward_to_saved = False\<rparr>"

definition msg :: "string \<Rightarrow> message_event" where
  "msg text = \<lparr>raw_text = text, chat_id = 1, sender_id = 7, date = ''t0''\<rparr>"

text \<open>An entry whose initial fetch succeeded with market cap 1000, an entry whose initial
  fetch found nothing, and an entry as a legacy current-state file may hold it.\<close>

definition tracked :: json where
  "tracked =
     JObj [(''token'', JStr ''ABC''), (''time_posted'', JStr ''t0''),
           (''initial_market_cap'', JNum 1000), (''highest_market_cap'', JNum 1000),
           (''current_market_cap'', JNum 1000), (''current_percentage'', JStr ''+0.00%''),
           (''highest_percent_increase'', JNum 0), (''reached_50'', JBool False),
           (''last_checked'', JStr ''t0''), (''pair_url'', JNull)]"

definition pending :: json where
  "pending = JObj (new_entry ''ABC'' ''t0'')"

definition legacy :: json where
  "legacy =
     JObj [(''token'', JStr ''ABC''), (''current_percentage'', JStr ''+80.00%''),
           (''highest_percent_increase'', JNum 80), (''reached_50'', JBool True)]"

definition field :: "string \<Rightarrow> state \<Rightarrow> json" where
  "field k s = (case entry s of JObj e \<Rightarrow> lookup e k | _ \<Rightarrow> JNull)"

definition history_tokens :: "state \<Rightarrow> json list" where
  "history_tokens s =
     (case load_history (history_file s) of
        Inr h \<Rightarrow> map (\<lambda>e. case e of JObj kvs \<Rightarrow> lookup kvs ''token'' | _ \<Rightarrow> JNull) h
      | Inl err \<Rightarrow> [])"

section \<open>The claims' words about the percentage\<close>



section \<open>The claims' words about the lock and about candidates\<close>

text \<open>A trace of a task that starts without the lock: every network call is made with
  the lock free, or every one with the lock held.\<close>

definition calls_unlocked :: "event list \<Rightarrow> bool" where
  "calls_unlocked tr = list_all (\<lambda>h. \<not> h) (held_at_calls False tr)"

definition calls_locked :: "event list \<Rightarrow> bool" where
  "calls_locked tr = list_all (\<lambda>h. h) (held_at_calls False tr)"

text \<open>A piece of trace that starts and ends with the lock free and calls the network
  only with the lock free, and one that starts and ends with the lock held and calls the
  network only with the lock held.\<close>

definition unlocked_piece :: "event list \<Rightarrow> bool" where
  "unlocked_piece tr = (\<not> held_after False tr \<and> list_all (\<lambda>h. \<not> h) (held_at_calls False tr))"

definition locked_piece :: "event list \<Rightarrow> bool" where
  "locked_piece tr = (held_after True tr \<and> list_all (\<lambda>h. h) (held_at_calls True tr))"




section \<open>The loaders\<close>

lemma load_current_never_raises: "\<exists>v. load_current f = Inr v"
  by (auto simp: load_current_def split: file_state.splits sum.splits option.splits)

lemma load_history_never_raises: "\<exists>xs. load_history f = Inr xs"
  by (auto simp: load_history_def split: file_state.splits sum.splits option.splits)

lemma load_history_on_failure:
  "load_history Missing = Inr [] \<and> load_history Unreadable = Inr []"
  by (simp add: load_history_def)

text \<open>
  C10. The claim: for any file content the current-state loader returns an entry
  dictionary or \<^verbatim>\<open>None\<close>, the history loader a list, and neither raises. The loaders
  indeed never raise and the history loader always returns a list, but the legacy
  branch of \<^verbatim>\<open>_load_current\<close> hands back whatever value sits under \<^verbatim>\<open>items\<close>: for the
  file \<^verbatim>\<open>{"items": {"a": 5}}\<close> it returns the number 5, neither a dictionary nor
  \<^verbatim>\<open>None\<close>, against its own annotation \<^verbatim>\<open>Optional[Dict[str, Any]]\<close>.
\<close>

theorem load_current_returns_non_dict:
  "load_current (Holds (JObj [(''items'', JObj [(''a'', JNum 5)])])) = Inr (JNum 5)
   \<and> \<not> is_dict (JNum 5) \<and> JNum 5 \<noteq> JNull"
  by (simp add: load_current_def load_current_try_def lookup_def py_or_def is_dict_def)


section \<open>Pair selection\<close>










section \<open>Market cap of the selected pair\<close>








section \<open>The monitor loop and fetch failures\<close>

text \<open>A cycle whose fetch raises ends the task, whatever cycles were to follow, with
  entry and files as they were; a cycle whose fetch finds no market cap is only skipped.\<close>

lemma monitor_ends_when_fetch_raises:
  assumes "entry s = JObj e" and "lookup e ''token'' = JStr k" and "k \<noteq> []"
    and "fetch_market_cap net (JStr k) = Inl err"
  shows "market_cap_monitor ((net, now) # cs) s
           = (Some err, s\<lparr>trace := trace s @ [Sleep, Acquire, Release, NetCall]\<rparr>)"
proof -
  from assms(1,2,3) have "e \<noteq> []" by (auto simp: lookup_def)
  with assms show ?thesis
    by (simp add: monitor_cycle_def monitor_fetch_def await_fetch_def log_event_def Let_def)
qed

lemma monitor_continues_when_no_pair:
  assumes "entry s = JObj e" and "lookup e ''token'' = JStr k" and "k \<noteq> []"
    and "fetch_market_cap net (JStr k) = Inr (None, u)"
  shows "market_cap_monitor ((net, now) # cs) s
           = market_cap_monitor cs (s\<lparr>trace := trace s @ [Sleep, Acquire, Release, NetCall]\<rparr>)"
proof -
  from assms(1,2,3) have "e \<noteq> []" by (auto simp: lookup_def)
  with assms show ?thesis
    by (simp add: monitor_cycle_def monitor_fetch_def await_fetch_def log_event_def Let_def)
qed

text \<open>
  C1. The claim: a transient fetch failure in a monitor cycle (network error, timeout,
  malformed response, no pair found) leaves the active entry and the files unchanged and
  does not end the monitor loop. The entry and the files are indeed left as they were,
  and "no pair found" only skips the cycle; but \<^verbatim>\<open>market_cap_monitor\<close> awaits
  \<^verbatim>\<open>fetch_market_cap\<close> outside any \<^verbatim>\<open>try\<close>, so a network error ends the task: the
  cycle that would have observed 1500 never runs.
\<close>

theorem monitor_ends_on_network_error:
  "market_cap_monitor [(net_down, ''t1''), (net_const (one_pair 1500), ''t2'')] (idle tracked)
     = (Some NetworkError, (idle tracked)\<lparr>trace := [Sleep, Acquire, Release, NetCall]\<rparr>)
   \<and> fst (market_cap_monitor [(net_const no_pairs, ''t1''), (net_const (one_pair 1500), ''t2'')]
            (idle tracked)) = None"
  by code_simp

section \<open>The first observation of a pending entry\<close>

text \<open>Every entry whose \<^verbatim>\<open>initial_market_cap\<close> is null and whose \<^verbatim>\<open>highest_market_cap\<close>
  is present and null makes the update raise, for every observation.\<close>

lemma pending_entry_raises:
  assumes "lookup e ''initial_market_cap'' = JNull" and "map_of e ''highest_market_cap'' = Some JNull"
  shows "update_entry now m url e = (Some TypeError, set_item ''initial_market_cap'' (JNum m) e)"
  using assms by (simp add: update_entry_def Let_def)

text \<open>
  C2. The claim: when the entry's \<^verbatim>\<open>initial_market_cap\<close> is null, the locked update sets
  \<^verbatim>\<open>initial_market_cap\<close> and \<^verbatim>\<open>highest_market_cap\<close> to the observation, updates the rest
  and persists the entry, without error. An entry made by the handler whose initial
  fetch found nothing carries the key \<^verbatim>\<open>highest_market_cap\<close> with value \<^verbatim>\<open>None\<close>, so
  \<^verbatim>\<open>entry.get("highest_market_cap", ...)\<close> returns \<^verbatim>\<open>None\<close> and not its default, and
  \<^verbatim>\<open>market_cap > highest_market_cap\<close> raises \<^verbatim>\<open>TypeError\<close>: only \<^verbatim>\<open>initial_market_cap\<close>
  has been assigned, nothing is persisted, and the monitor task ends.
\<close>

theorem apply_observation_pending_raises:
  "entry (snd (handler cfg0 (net_const no_pairs) ''t1'' (msg ''$ABC'') (idle JNull))) = pending
   \<and> apply_observation ''t2'' ''ABC'' 1000 JNull (idle pending)
       = (Raised TypeError,
          (idle pending)\<lparr>entry := JObj (set_item ''initial_market_cap'' (JNum 1000)
                                           (new_entry ''ABC'' ''t0''))\<rparr>)
   \<and> fst (market_cap_monitor [(net_const (one_pair 1000), ''t2'')] (idle pending)) = Some TypeError"
  by code_simp

section \<open>The flag \<open>reached_50\<close>\<close>

text \<open>
  C3. The claim: after every applied observation \<^verbatim>\<open>reached_50\<close> equals
  \<^verbatim>\<open>highest_percent_increase >= 50.0\<close>, and once true it never reverts. The update keeps
  the running maximum in \<^verbatim>\<open>highest_percent_increase\<close> but sets \<^verbatim>\<open>reached_50\<close> from the
  freshly computed \<^verbatim>\<open>highest_percent\<close>. For an entry read from a legacy current-state
  file, with \<^verbatim>\<open>highest_percent_increase\<close> 80, \<^verbatim>\<open>reached_50\<close> true and no market caps yet,
  an observation of 100 leaves the maximum at 80 and sets \<^verbatim>\<open>reached_50\<close> to false.
\<close>

theorem reached_50_reverts:
  "field ''reached_50'' (idle legacy) = JBool True
   \<and> fst (apply_observation ''t1'' ''ABC'' 100 JNull (idle legacy)) = Applied
   \<and> field ''highest_percent_increase''
        (snd (apply_observation ''t1'' ''ABC'' 100 JNull (idle legacy))) = JNum 80
   \<and> field ''reached_50''
        (snd (apply_observation ''t1'' ''ABC'' 100 JNull (idle legacy))) = JBool False"
  by code_simp

section \<open>Ingestion and the history log\<close>

text \<open>
  C5. The claim: after a sequence of distinct tokens the active entry is that of the last
  token, and every previously active entry is in the history exactly once, in order.
  The handler appends the active entry to the history before it fetches the new token's
  market cap; when that fetch raises, the handler's \<^verbatim>\<open>except\<close> ends the message with the
  old entry archived and still active. With \<open>ABC\<close> active, the token \<open>BBB\<close> arrives while
  the network is down, then the token \<open>CCC\<close>: after \<open>BBB\<close> the active token is still
  \<open>ABC\<close>, and after \<open>CCC\<close> the history holds the entry of \<open>ABC\<close> twice.
\<close>

theorem history_duplicate_after_failed_fetch:
  "field ''token'' (snd (handler cfg0 (net_down_for ''BBB'' no_pairs) ''t1'' (msg ''$BBB'')
                          (idle tracked))) = JStr ''ABC''
   \<and> history_tokens (snd (handler cfg0 (net_down_for ''BBB'' no_pairs) ''t1'' (msg ''$BBB'')
                            (idle tracked))) = [JStr ''ABC'']
   \<and> history_tokens (snd (handler cfg0 (net_const no_pairs) ''t2'' (msg ''$CCC'')
        (snd (handler cfg0 (net_down_for ''BBB'' no_pairs) ''t1'' (msg ''$BBB'') (idle tracked)))))
      = [JStr ''ABC'', JStr ''ABC'']"
  by code_simp


section \<open>The current percentage\<close>


lemma map_of_set_item: "map_of (set_item k v e) k' = (if k' = k then Some v else map_of e k')"
  by (simp add: set_item_def update_conv')











section \<open>The lock and the network calls\<close>

lemma held_after_append: "held_after h (a @ b) = held_after (held_after h a) b"
  by (induction h a rule: held_after.induct) simp_all

lemma held_at_calls_append:
  "held_at_calls h (a @ b) = held_at_calls h a @ held_at_calls (held_after h a) b"
  by (induction h a rule: held_at_calls.induct) simp_all

lemma unlocked_piece_append:
  "unlocked_piece a \<Longrightarrow> unlocked_piece b \<Longrightarrow> unlocked_piece (a @ b)"
  by (simp add: unlocked_piece_def held_after_append held_at_calls_append)

lemma locked_piece_append:
  "locked_piece a \<Longrightarrow> locked_piece b \<Longrightarrow> locked_piece (a @ b)"
  by (simp add: locked_piece_def held_after_append held_at_calls_append)

lemma apply_observation_trace:
  "trace (snd (apply_observation now k m url s)) = trace s
   \<or> trace (snd (apply_observation now k m url s)) = trace s @ [SaveCurrent]"
  by (cases "update_entry now m url (case entry s of JObj e \<Rightarrow> e | _ \<Rightarrow> [])")
     (auto simp: apply_observation_def save_current_def log_event_def
        split: json.splits option.splits)

lemma monitor_update_trace:
  "trace (snd (monitor_update now ob s)) = trace s @ [Acquire, Release]
   \<or> trace (snd (monitor_update now ob s)) = trace s @ [Acquire, SaveCurrent, Release]"
proof -
  obtain r s' where a: "apply_observation now (fst ob) (fst (snd ob)) (snd (snd ob)) (log_event Acquire s) = (r, s')"
    by (cases "apply_observation now (fst ob) (fst (snd ob)) (snd (snd ob)) (log_event Acquire s)")
  from apply_observation_trace [of now "fst ob" "fst (snd ob)" "snd (snd ob)" "log_event Acquire s"] a
  show ?thesis
    by (auto simp: monitor_update_def log_event_def)
qed

lemma monitor_fetch_trace:
  "trace (snd (monitor_fetch net s)) = trace s @ [Sleep, Acquire, Release]
   \<or> trace (snd (monitor_fetch net s)) = trace s @ [Sleep, Acquire, Release, NetCall]"
  by (auto simp: monitor_fetch_def Let_def await_fetch_def log_event_def
        split: sum.splits option.splits json.splits prod.splits)

lemma monitor_cycle_trace:
  "\<exists>suf. trace (snd (monitor_cycle net now s)) = trace s @ suf \<and> unlocked_piece suf"
proof -
  obtain r s1 where f: "monitor_fetch net s = (r, s1)" by (cases "monitor_fetch net s")
  from monitor_fetch_trace [of net s] f obtain p where
    p: "trace s1 = trace s @ p" "unlocked_piece p"
    by (auto simp: unlocked_piece_def)
  show ?thesis
  proof (cases r)
    case (Inl err)
    with f p show ?thesis by (auto simp: monitor_cycle_def)
  next
    case (Inr o1)
    show ?thesis
    proof (cases o1)
      case None
      with Inr f p show ?thesis by (auto simp: monitor_cycle_def)
    next
      case (Some ob)
      from monitor_update_trace [of now ob s1] obtain q where
        q: "trace (snd (monitor_update now ob s1)) = trace s1 @ q" "unlocked_piece q"
        by (auto simp: unlocked_piece_def)
      have "trace (snd (monitor_cycle net now s)) = trace s @ (p @ q)"
        using Some Inr f p q by (simp add: monitor_cycle_def)
      with p q show ?thesis using unlocked_piece_append by blast
    qed
  qed
qed

lemma market_cap_monitor_trace:
  "\<exists>suf. trace (snd (market_cap_monitor cs s)) = trace s @ suf \<and> unlocked_piece suf"
proof (induction cs arbitrary: s)
  case Nil
  show ?case by (simp add: unlocked_piece_def)
next
  case (Cons c cs)
  obtain r s1 where c: "monitor_cycle (fst c) (snd c) s = (r, s1)"
    by (cases "monitor_cycle (fst c) (snd c) s")
  from monitor_cycle_trace [of "fst c" "snd c" s] c obtain p where
    p: "trace s1 = trace s @ p" "unlocked_piece p" by auto
  show ?case
  proof (cases "\<exists>err. r = Raised err")
    case True
    with c p show ?thesis by auto
  next
    case False
    then have "market_cap_monitor (c # cs) s = market_cap_monitor cs s1"
      using c by (cases r) simp_all
    moreover from Cons.IH [of s1] obtain q where
      "trace (snd (market_cap_monitor cs s1)) = trace s1 @ q" "unlocked_piece q" by blast
    ultimately have "trace (snd (market_cap_monitor (c # cs) s)) = trace s @ (p @ q)"
      "unlocked_piece (p @ q)"
      using p by (simp_all add: unlocked_piece_append)
    then show ?thesis by blast
  qed
qed

lemma append_history_trace:
  "trace (append_history e s) = trace s @ [AppendHistory]"
proof -
  obtain xs where "load_history (history_file s) = Inr xs"
    using load_history_never_raises by blast
  then show ?thesis by (simp add: append_history_def log_event_def)
qed

lemma refresh_trace:
  "trace (snd (refresh_entry_market_cap net now (JStr k) e s)) = trace s @ [NetCall]"
  by (auto simp: refresh_entry_market_cap_def await_fetch_def log_event_def Let_def
        split: sum.splits option.splits prod.splits)

lemma handle_tokens_trace:
  "\<exists>suf. trace (snd (handle_tokens net now posted toks s)) = trace s @ suf \<and> locked_piece suf"
proof (induction toks arbitrary: s)
  case Nil
  show ?case by (simp add: locked_piece_def)
next
  case (Cons k toks)
  let ?c = "if truthy (entry s)
            then bindE (py_get (entry s) ''token'') (\<lambda>t. Inr (t = JStr k))
            else Inr False"
  show ?case
  proof (cases ?c)
    case (Inl err)
    then show ?thesis by (simp add: locked_piece_def)
  next
    case (Inr same)
    show ?thesis
    proof (cases same)
      case True
      with Inr Cons.IH [of s] show ?thesis by simp
    next
      case False
      let ?s1 = "if truthy (entry s) then append_history (entry s) s else s"
      have "\<exists>p. trace ?s1 = trace s @ p \<and> locked_piece p"
      proof (cases "truthy (entry s)")
        case True
        then show ?thesis
          by (intro exI [of _ "[AppendHistory]"]) (simp add: append_history_trace locked_piece_def)
      next
        case False
        then show ?thesis by (intro exI [of _ "[]"]) (simp add: locked_piece_def)
      qed
      then obtain p where p: "trace ?s1 = trace s @ p" "locked_piece p" by blast
      obtain r s2 where r: "refresh_entry_market_cap net now (JStr k) (new_entry k posted) ?s1 = (r, s2)"
        by (cases "refresh_entry_market_cap net now (JStr k) (new_entry k posted) ?s1")
      from refresh_trace [of net now k "new_entry k posted" ?s1] r
      have s2: "trace s2 = trace s @ (p @ [NetCall])" using p by simp
      have pn: "locked_piece (p @ [NetCall])"
        using p by (simp add: locked_piece_def held_after_append held_at_calls_append)
      show ?thesis
      proof (cases r)
        case (Inl err)
        with Inr False r have "handle_tokens net now posted (k # toks) s = (Some err, s2)"
          by simp
        with s2 pn show ?thesis by auto
      next
        case (Inr e)
        let ?s3 = "save_current (JObj e) (s2\<lparr>entry := JObj e\<rparr>)"
        have eq: "handle_tokens net now posted (k # toks) s = handle_tokens net now posted toks ?s3"
          using \<open>?c = Inr same\<close> False r Inr by simp
        have s3: "trace ?s3 = trace s @ (p @ [NetCall] @ [SaveCurrent])"
          using s2 by (simp add: save_current_def log_event_def)
        have l3: "locked_piece (p @ [NetCall] @ [SaveCurrent])"
          using p by (simp add: locked_piece_def held_after_append held_at_calls_append)
        from Cons.IH [of ?s3] obtain q where
          q: "trace (snd (handle_tokens net now posted toks ?s3)) = trace ?s3 @ q" "locked_piece q"
          by blast
        have "trace (snd (handle_tokens net now posted (k # toks) s))
                = trace s @ ((p @ [NetCall] @ [SaveCurrent]) @ q)"
          using eq q s3 by simp
        moreover have "locked_piece ((p @ [NetCall] @ [SaveCurrent]) @ q)"
          using l3 q(2) by (rule locked_piece_append)
        ultimately show ?thesis by blast
      qed
    qed
  qed
qed

lemma handler_trace:
  "calls_locked (trace (snd (handler cfg net now ev (s\<lparr>trace := []\<rparr>))))"
proof -
  let ?s = "s\<lparr>trace := []\<rparr>"
  let ?toks = "classify (raw_text ev)"
  obtain r s' where h: "handle_tokens net now (date ev) ?toks (log_event Acquire ?s) = (r, s')"
    by (cases "handle_tokens net now (date ev) ?toks (log_event Acquire ?s)")
  from handle_tokens_trace [of net now "date ev" ?toks "log_event Acquire ?s"] h obtain suf where
    "trace s' = [Acquire] @ suf" "locked_piece suf"
    by (auto simp: log_event_def)
  then have a: "calls_locked (trace s' @ [Release])" "calls_locked (trace s' @ [Release, SendMessage])"
    by (simp_all add: calls_locked_def locked_piece_def held_at_calls_append)
  show ?thesis
    using h a by (cases r) (auto simp: handler_def Let_def log_event_def calls_locked_def)
qed

lemma monitor_calls_example:
  "held_at_calls False (trace (snd (market_cap_monitor [(net_const (one_pair 1500), ''t1'')]
                                      (idle tracked)))) = [False]"
  by code_simp

text \<open>
  C4, as stated. The claim: neither the monitor loop nor the ingestion handler makes the
  market-cap network call while holding the shared lock. The handler awaits
  \<^verbatim>\<open>_refresh_entry_market_cap\<close> inside \<^verbatim>\<open>async with results_lock\<close>: for the message
  \<open>$ABC\<close> its one network call is made with the lock held.
\<close>

theorem handler_fetches_under_lock:
  "held_at_calls False (trace (snd (handler cfg0 (net_const no_pairs) ''t1'' (msg ''$ABC'')
                                      (idle JNull)))) = [True]"
  by code_simp

text \<open>
  C4, amended. The monitor loop never makes the network call while holding the lock,
  whatever the cycles bring and however the task ends; the ingestion handler makes every
  one of its network calls, the initial fetch for each new token, while holding the lock.
\<close>

theorem network_calls_and_the_lock:
  "calls_unlocked (trace (snd (market_cap_monitor cs (s\<lparr>trace := []\<rparr>))))
   \<and> calls_locked (trace (snd (handler cfg net now ev (s\<lparr>trace := []\<rparr>))))"
proof -
  from market_cap_monitor_trace [of cs "s\<lparr>trace := []\<rparr>"]
  have "calls_unlocked (trace (snd (market_cap_monitor cs (s\<lparr>trace := []\<rparr>))))"
    by (auto simp: calls_unlocked_def unlocked_piece_def)
  with handler_trace show ?thesis by blast
qed


section \<open>The order of the candidates\<close>














end
